theory Spec2Isabelle
  imports Complex_Main "HOL-Library.AList"
begin

section \<open>Data model (core/models.py)\<close>

text \<open>
  Python floats are modelled as reals, Python ints as \<open>int\<close> (indices and primary keys
  as \<open>nat\<close>), a nullable column as an \<open>option\<close>.  A table is the list of its rows
  in primary-key order, each paired with its key; a foreign key holds the key of the
  row it points to.  Timestamps are natural numbers.
\<close>

record Stop =
  stop_id :: nat
  latitude :: real
  longitude :: real

record Driver =
  user :: nat
  driver_current_lat :: "real option"
  driver_current_lng :: "real option"

record Bus =
  driver :: "nat option"
  route :: "nat option"
  current_lat :: "real option"
  current_lng :: "real option"
  eta_seconds :: "int option"
  eta_smoothed_seconds :: "real option"
  eta_passed_counter :: int
  nearest_stop_index :: "nat option"
  updated_at :: "nat option"

record RouteStop =
  stop :: Stop
  distance_to_next_m :: "real option"

record Message =
  sender :: nat
  recipient :: nat
  bus :: "nat option"
  content :: string

text \<open>
  \<open>route_stops db r\<close> is \<open>BusRoute.get_stops_list\<close> of route \<open>r\<close> (its stops ordered
  by \<open>order\<close>), \<open>reverse_route db r\<close> the route's nullable self-reference.  \<open>messages\<close>
  lists the Message rows in creation order (\<open>created_at\<close> is set on creation), the
  newest last.
\<close>

record db =
  buses :: "(nat \<times> Bus) list"
  drivers :: "(nat \<times> Driver) list"
  users :: "nat list"
  route_stops :: "nat \<Rightarrow> Stop list"
  reverse_route :: "nat \<Rightarrow> nat option"
  messages :: "Message list"

section \<open>Great-circle distance\<close>

definition radians :: "real \<Rightarrow> real" where
  "radians d = d * pi / 180"

text \<open>\<open>math.atan2\<close> on the reals.\<close>

definition atan2 :: "real \<Rightarrow> real \<Rightarrow> real" where
  "atan2 y x =
     (if 0 < x then arctan (y / x)
      else if x < 0 then (if 0 \<le> y then arctan (y / x) + pi else arctan (y / x) - pi)
      else if 0 < y then pi / 2
      else if y < 0 then - (pi / 2)
      else 0)"

text \<open>
  The haversine formula is written out four times in the source, each time with the
  same body and a different Earth radius \<open>R\<close>.
\<close>

definition haversine_with :: "real \<Rightarrow> real \<Rightarrow> real \<Rightarrow> real \<Rightarrow> real \<Rightarrow> real" where
  "haversine_with R lat1 lon1 lat2 lon2 =
     (let phi1 = radians lat1;
          phi2 = radians lat2;
          dphi = radians (lat2 - lat1);
          dlambda = radians (lon2 - lon1);
          a = (sin (dphi / 2))\<^sup>2 + cos phi1 * cos phi2 * (sin (dlambda / 2))\<^sup>2;
          c = 2 * atan2 (sqrt a) (sqrt (1 - a))
      in R * c)"

text \<open>\<open>BusRoute._calculate_distance\<close>: metres.\<close>

definition calculate_distance :: "real \<Rightarrow> real \<Rightarrow> real \<Rightarrow> real \<Rightarrow> real" where
  "calculate_distance = haversine_with 6371000"

text \<open>The local \<open>haversine\<close> of \<open>_save_bus_location\<close> and of the views: kilometres.\<close>

definition haversine :: "real \<Rightarrow> real \<Rightarrow> real \<Rightarrow> real \<Rightarrow> real" where
  "haversine = haversine_with 6371"

section \<open>Python helpers\<close>

text \<open>Truthiness of a nullable float, of a nullable id, of a nullable string.\<close>

definition truthy :: "real option \<Rightarrow> bool" where
  "truthy v = (case v of None \<Rightarrow> False | Some x \<Rightarrow> x \<noteq> 0)"

definition truthy_id :: "nat option \<Rightarrow> bool" where
  "truthy_id v = (case v of None \<Rightarrow> False | Some n \<Rightarrow> n \<noteq> 0)"

definition truthy_str :: "string option \<Rightarrow> bool" where
  "truthy_str v = (case v of None \<Rightarrow> False | Some s \<Rightarrow> s \<noteq> [])"

text \<open>\<open>int(x)\<close> of a float truncates towards zero.\<close>

definition py_int :: "real \<Rightarrow> int" where
  "py_int x = (if 0 \<le> x then \<lfloor>x\<rfloor> else \<lceil>x\<rceil>)"

text \<open>
  \<open>min(range(len(keys)), key=...)\<close>: the first index whose key is minimal; \<open>None\<close>
  stands for the ValueError on an empty sequence.
\<close>

fun min_index_loop :: "real list \<Rightarrow> nat \<Rightarrow> nat \<Rightarrow> real \<Rightarrow> nat" where
  "min_index_loop [] i best best_key = best"
| "min_index_loop (k # ks) i best best_key =
     (if k < best_key then min_index_loop ks (Suc i) i k
      else min_index_loop ks (Suc i) best best_key)"

definition min_index :: "real list \<Rightarrow> nat option" where
  "min_index keys = (case keys of [] \<Rightarrow> None | k # ks \<Rightarrow> Some (min_index_loop ks 1 0 k))"

section \<open>LocationConsumer (core/consumers.py)\<close>

text \<open>
  \<open>_save_bus_location\<close>.  The result is the database after the call and the returned
  flag.  Each \<open>save(update_fields=...)\<close> writes the row back.  Reading \<open>bus.driver\<close>
  when the row is gone raises, which the outer handler turns into \<open>False\<close> after the
  position has been written; \<open>min\<close> over an empty stop list raises inside the inner
  handler, which only logs.  Log lines are left out.
\<close>

definition save_nearest_stop :: "Bus \<Rightarrow> Stop list \<Rightarrow> real \<Rightarrow> real \<Rightarrow> Bus option" where
  "save_nearest_stop b stops lat_f lng_f =
     (case min_index (map (\<lambda>s. haversine lat_f lng_f (latitude s) (longitude s)) stops) of
        None \<Rightarrow> None
      | Some nearest_idx \<Rightarrow>
          let dist_km = haversine lat_f lng_f (latitude (stops ! nearest_idx))
                                  (longitude (stops ! nearest_idx));
              eta = max 1 (py_int ((dist_km / 25) * 3600));
              smoothed = (if truthy (eta_smoothed_seconds b)
                          then (3 / 10) * real_of_int eta
                               + (1 - 3 / 10) * the (eta_smoothed_seconds b)
                          else real_of_int eta)
          in Some (b\<lparr>nearest_stop_index := Some nearest_idx,
                     eta_seconds := Some eta,
                     eta_smoothed_seconds := Some smoothed\<rparr>))"

definition save_bus_location :: "db \<Rightarrow> nat \<Rightarrow> nat \<Rightarrow> real \<Rightarrow> real \<Rightarrow> db \<times> bool" where
  "save_bus_location d now bus_id lat_f lng_f =
     (case map_of (buses d) bus_id of
        None \<Rightarrow> (d, False)
      | Some b \<Rightarrow>
          if truthy (current_lat b) \<and> truthy (current_lng b) \<and>
             calculate_distance (the (current_lat b)) (the (current_lng b)) lat_f lng_f < 25
          then (d, False)
          else
            let b1 = b\<lparr>current_lat := Some lat_f, current_lng := Some lng_f,
                       updated_at := Some now\<rparr>;
                d1 = d\<lparr>buses := AList.update bus_id b1 (buses d)\<rparr>
            in (case driver b1 of
                  None \<Rightarrow> (d1, True)
                | Some drv_id \<Rightarrow>
                    (case map_of (drivers d1) drv_id of
                       None \<Rightarrow> (d1, False)
                     | Some drv \<Rightarrow>
                         let d2 = d1\<lparr>drivers := AList.update drv_id
                                     (drv\<lparr>driver_current_lat := Some lat_f,
                                           driver_current_lng := Some lng_f\<rparr>) (drivers d1)\<rparr>
                         in (case route b1 of
                               None \<Rightarrow> (d2, True)
                             | Some r \<Rightarrow>
                                 (case save_nearest_stop b1 (route_stops d2 r) lat_f lng_f of
                                    None \<Rightarrow> (d2, True)
                                  | Some b2 \<Rightarrow>
                                      (d2\<lparr>buses := AList.update bus_id b2 (buses d2)\<rparr>,
                                       True))))))"

text \<open>\<open>_clear_bus_location\<close>.\<close>

definition clear_bus_location :: "db \<Rightarrow> nat \<Rightarrow> db \<times> bool" where
  "clear_bus_location d bus_id =
     (case map_of (buses d) bus_id of
        None \<Rightarrow> (d, False)
      | Some b \<Rightarrow>
          let b1 = b\<lparr>current_lat := None, current_lng := None, nearest_stop_index := None,
                     eta_seconds := None, eta_smoothed_seconds := None\<rparr>;
              d1 = d\<lparr>buses := AList.update bus_id b1 (buses d)\<rparr>
          in (case driver b1 of
                None \<Rightarrow> (d1, True)
              | Some drv_id \<Rightarrow>
                  (case map_of (drivers d1) drv_id of
                     None \<Rightarrow> (d1, False)
                   | Some drv \<Rightarrow>
                       (d1\<lparr>drivers := AList.update drv_id
                              (drv\<lparr>driver_current_lat := None,
                                    driver_current_lng := None\<rparr>) (drivers d1)\<rparr>,
                        True))))"

text \<open>
  Events on the wire.  A topic stands for the group name the source formats
  (\<open>bus_<id>\<close>, \<open>user_<id>\<close>, \<open>driver_<id>\<close>, \<open>chat_user_<u>_driver_<d>\<close>).
\<close>

datatype topic = Bus_topic nat | User_topic nat | Driver_topic nat | Legacy_topic nat nat

datatype event =
    Location_update real real bool int
  | Tracking_status string string

text \<open>
  What a location socket receives: text that does not parse, or a JSON object with its
  \<open>type\<close>, \<open>lat\<close> and \<open>lng\<close> entries (\<open>None\<close> when the key is missing or null).
  The coordinates are numbers; one that \<open>float\<close> cannot convert would make
  \<open>_save_bus_location\<close> answer \<open>False\<close> with nothing written.
\<close>

datatype inbound =
    Unparseable
  | Data "string option" "real option" "real option"

record LocationConsumer =
  bus_id :: nat
  sequence_number :: int
  is_driver :: bool

text \<open>
  The result of a handler: the consumer, the database, the events sent to groups (in
  order) and the events sent straight back on this socket.
\<close>

type_synonym outcome = "LocationConsumer \<times> db \<times> (topic \<times> event) list \<times> event list"

definition is_driver_for_bus :: "db \<Rightarrow> nat \<Rightarrow> nat \<Rightarrow> bool" where
  "is_driver_for_bus d uid bid =
     (case map_of (buses d) bid of
        None \<Rightarrow> False
      | Some b \<Rightarrow>
          (case driver b of
             None \<Rightarrow> False
           | Some drv_id \<Rightarrow>
               (case map_of (drivers d) drv_id of
                  None \<Rightarrow> False
                | Some drv \<Rightarrow> user drv = uid)))"

definition get_last_bus_location :: "db \<Rightarrow> nat \<Rightarrow> (real \<times> real) option" where
  "get_last_bus_location d bid =
     (case map_of (buses d) bid of
        None \<Rightarrow> None
      | Some b \<Rightarrow>
          if truthy (current_lat b) \<and> truthy (current_lng b)
          then Some (the (current_lat b), the (current_lng b))
          else None)"

definition waiting :: event where
  "waiting = Tracking_status ''waiting'' ''Waiting for driver to start tracking...''"

text \<open>\<open>connect\<close>: the argument \<open>usr\<close> is the authenticated user of the scope, if any.\<close>

definition connect :: "db \<Rightarrow> nat \<Rightarrow> nat option \<Rightarrow> LocationConsumer \<times> event list" where
  "connect d bid usr =
     (let drv = (case usr of None \<Rightarrow> False | Some uid \<Rightarrow> is_driver_for_bus d uid bid);
          c = \<lparr>bus_id = bid, sequence_number = 0, is_driver = drv\<rparr>
      in if \<not> drv
         then (case get_last_bus_location d bid of
                 Some (lat, lng) \<Rightarrow> (c, [Location_update lat lng True (- 1), waiting])
               | None \<Rightarrow> (c, [waiting]))
         else (c, []))"

definition receive :: "LocationConsumer \<Rightarrow> db \<Rightarrow> nat \<Rightarrow> inbound \<Rightarrow> outcome" where
  "receive c d now msg =
     (case msg of
        Unparseable \<Rightarrow> (c, d, [], [])
      | Data ty lat lng \<Rightarrow>
          if ty = Some ''location'' then
            if \<not> is_driver c then (c, d, [], [])
            else (case (lat, lng) of
                    (Some lat_v, Some lng_v) \<Rightarrow>
                      (case save_bus_location d now (bus_id c) lat_v lng_v of
                         (d', True) \<Rightarrow>
                           let c' = c\<lparr>sequence_number := sequence_number c + 1\<rparr>
                           in (c', d',
                               (if sequence_number c' = 1
                                then [(Bus_topic (bus_id c),
                                       Tracking_status ''connected'' ''Driver started tracking'')]
                                else [])
                               @ [(Bus_topic (bus_id c),
                                   Location_update lat_v lng_v False (sequence_number c'))],
                               [])
                       | (d', False) \<Rightarrow> (c, d', [], []))
                  | _ \<Rightarrow> (c, d, [], []))
          else (c, d, [], []))"

text \<open>\<open>disconnect\<close>.\<close>

definition disconnect :: "LocationConsumer \<Rightarrow> db \<Rightarrow> db \<times> (topic \<times> event) list" where
  "disconnect c d =
     (if is_driver c
      then (fst (clear_bus_location d (bus_id c)),
            [(Bus_topic (bus_id c), Tracking_status ''disconnected'' ''Driver stopped tracking'')])
      else (d, []))"

text \<open>
  A session: the events of one connection handled in order, each with the clock reading
  at its arrival.  The result collects what was sent to groups.
\<close>

fun run :: "LocationConsumer \<Rightarrow> db \<Rightarrow> (nat \<times> inbound) list
    \<Rightarrow> LocationConsumer \<times> db \<times> (topic \<times> event) list" where
  "run c d [] = (c, d, [])"
| "run c d ((now, m) # ms) =
     (case receive c d now m of
        (c1, d1, out, _) \<Rightarrow>
          (case run c1 d1 ms of (c2, d2, outs) \<Rightarrow> (c2, d2, out @ outs)))"

section \<open>ChatConsumer (core/consumers.py)\<close>

text \<open>
  What a chat socket receives: no text or text that does not parse, or a JSON object
  with its \<open>type\<close>, \<open>content\<close>, \<open>recipient_id\<close> and \<open>bus_id\<close> entries.  The payload
  forwarded to a topic carries the sender, the recipient, the content and the bus id
  (the sender's name, read from the user object, is left out).
\<close>

datatype chat_inbound =
    Chat_unparseable
  | Chat_data "string option" "string option" "nat option" "nat option"

datatype chat_event = Chat_message_forward nat nat string "nat option"

text \<open>\<open>Driver.objects.filter(user__id=uid).exists()\<close>.\<close>

definition is_sender_driver :: "db \<Rightarrow> nat \<Rightarrow> bool" where
  "is_sender_driver d uid = list_ex (\<lambda>(k, drv). user drv = uid) (drivers d)"

text \<open>
  \<open>_get_last_user_to_driver\<close>: the newest message addressed to \<open>sid\<close> and not sent by
  \<open>sid\<close>, if any, gives its sender.
\<close>

definition get_last_user_to_driver :: "db \<Rightarrow> nat \<Rightarrow> nat option" where
  "get_last_user_to_driver d sid =
     (case filter (\<lambda>m. recipient m = sid \<and> sender m \<noteq> sid) (messages d) of
        [] \<Rightarrow> None
      | m # ms \<Rightarrow> Some (sender (last (m # ms))))"

text \<open>
  The two resolution steps of \<open>receive\<close>.  In the first, \<open>Bus.objects.get\<close> raises
  when there is no such bus, and reading a driver or user row that is gone raises too;
  the handler then sets the recipient to \<open>None\<close>.
\<close>

definition resolve_recipient :: "db \<Rightarrow> nat \<Rightarrow> nat option \<Rightarrow> nat option \<Rightarrow> nat option" where
  "resolve_recipient d sid recipient_id bus_ref =
     (let r1 =
        (if \<not> truthy_id recipient_id \<and> truthy_id bus_ref
         then (if \<not> is_sender_driver d sid
               then (case map_of (buses d) (the bus_ref) of
                       None \<Rightarrow> None
                     | Some bus_obj \<Rightarrow>
                         (case driver bus_obj of
                            None \<Rightarrow> recipient_id
                          | Some k \<Rightarrow>
                              (case map_of (drivers d) k of
                                 None \<Rightarrow> None
                               | Some drv \<Rightarrow>
                                   if user drv \<in> set (users d) then Some (user drv)
                                   else None)))
               else recipient_id)
         else recipient_id)
      in if \<not> truthy_id r1
         then (if is_sender_driver d sid
               then (let last_user = get_last_user_to_driver d sid
                     in if truthy_id last_user then last_user else r1)
               else r1)
         else r1)"

text \<open>\<open>_create_message\<close>: nothing is created when the sender or the recipient is no user.\<close>

definition create_message :: "db \<Rightarrow> nat \<Rightarrow> nat \<Rightarrow> nat option \<Rightarrow> string \<Rightarrow> db" where
  "create_message d sender_id recipient_id bus_ref text =
     (if sender_id \<in> set (users d) \<and> recipient_id \<in> set (users d)
      then d\<lparr>messages := messages d @
               [\<lparr>sender = sender_id, recipient = recipient_id,
                 bus = (if truthy_id bus_ref \<and> map_of (buses d) (the bus_ref) \<noteq> None
                        then bus_ref else None),
                 content = text\<rparr>]\<rparr>
      else d)"

text \<open>\<open>receive\<close>: \<open>usr\<close> is the authenticated user of the scope, if any.\<close>

definition chat_receive :: "db \<Rightarrow> nat option \<Rightarrow> chat_inbound \<Rightarrow> db \<times> (topic \<times> chat_event) list" where
  "chat_receive d usr msg =
     (case msg of
        Chat_unparseable \<Rightarrow> (d, [])
      | Chat_data msg_type content_v recipient_id bus_ref \<Rightarrow>
          if msg_type \<noteq> Some ''chat_message'' then (d, [])
          else (case usr of
                  None \<Rightarrow> (d, [])
                | Some sid \<Rightarrow>
                    let rid = resolve_recipient d sid recipient_id bus_ref
                    in if \<not> truthy_id rid \<or> \<not> truthy_str content_v then (d, [])
                       else
                         let r = the rid;
                             text = the content_v;
                             d' = create_message d sid r bus_ref text;
                             payload = Chat_message_forward sid r text bus_ref
                         in (d',
                             [(User_topic r, payload), (Legacy_topic r sid, payload)]
                             @ (if r \<noteq> sid then [(Driver_topic r, payload)] else [])
                             @ (if is_sender_driver d' sid
                                then [(Driver_topic sid, payload)]
                                else [(User_topic sid, payload),
                                      (Legacy_topic sid r, payload)]))))"

section \<open>The route graph (core/models.py)\<close>

text \<open>
  \<open>BusRoute.get_stop_graph\<close>.  The argument is \<open>list(routestop_set.order_by('order'))\<close>.
  The dictionary is an association list in insertion order: assigning to a key replaces
  its value in place or appends a new entry, as \<open>AList.update\<close> does.
\<close>

type_synonym graph = "(nat \<times> (nat \<times> real) list) list"

definition edge_distance :: "RouteStop \<Rightarrow> RouteStop \<Rightarrow> real" where
  "edge_distance rs next_rs =
     (let distance = distance_to_next_m rs
      in if distance = None \<or> distance = Some 0
         then calculate_distance (latitude (stop rs)) (longitude (stop rs))
                (latitude (stop next_rs)) (longitude (stop next_rs))
         else the distance)"

text \<open>\<open>graph[k].append(e)\<close>; the key has been assigned just before, so it is present.\<close>

definition append_edge :: "nat \<Rightarrow> nat \<times> real \<Rightarrow> graph \<Rightarrow> graph" where
  "append_edge k e g = (case map_of g k of None \<Rightarrow> g | Some es \<Rightarrow> AList.update k (es @ [e]) g)"

definition graph_step :: "RouteStop list \<Rightarrow> nat \<times> RouteStop \<Rightarrow> graph \<Rightarrow> graph" where
  "graph_step stops_list = (\<lambda>(i, rs) g.
     let g1 = AList.update (stop_id (stop rs)) [] g
     in if int i < int (length stops_list) - 1
        then let next_rs = stops_list ! (i + 1)
             in append_edge (stop_id (stop rs))
                  (stop_id (stop next_rs), edge_distance rs next_rs) g1
        else g1)"

definition get_stop_graph :: "RouteStop list \<Rightarrow> graph" where
  "get_stop_graph stops_list = fold (graph_step stops_list) (enumerate 0 stops_list) []"

section \<open>Views (core/views.py)\<close>

text \<open>
  \<open>switch_route\<close>.  \<open>driver_profile\<close> is the Driver row of the logged-in user, if there
  is one; \<open>driver.buses.first()\<close> is the first bus row with that driver.  The result is
  the database and the HTTP status of the response.
\<close>

definition switch_route :: "db \<Rightarrow> nat option \<Rightarrow> db \<times> nat" where
  "switch_route d driver_profile =
     (case driver_profile of
        None \<Rightarrow> (d, 403)
      | Some drv_id \<Rightarrow>
          (case find (\<lambda>(i, b). driver b = Some drv_id) (buses d) of
             None \<Rightarrow> (d, 404)
           | Some (bid, b) \<Rightarrow>
               (case route b of
                  None \<Rightarrow> (d, 400)
                | Some current_route \<Rightarrow>
                    (case reverse_route d current_route of
                       None \<Rightarrow> (d, 400)
                     | Some reverse_id \<Rightarrow>
                         (d\<lparr>buses := AList.update bid
                               (b\<lparr>route := Some reverse_id, nearest_stop_index := None,
                                  eta_seconds := None, eta_smoothed_seconds := None,
                                  eta_passed_counter := 0\<rparr>) (buses d)\<rparr>,
                          200)))))"

text \<open>
  \<open>update_location\<close>, the HTTP way for a driver to report a position.  The average
  speed and the smoothing factor are the defaults 25 and 0.3 the view falls back to.
  \<open>update_bus_estimate\<close> is the part that recomputes nearest stop, ETA and passed-stop
  counter when the route has stops.
\<close>

definition update_bus_estimate :: "Bus \<Rightarrow> Stop list \<Rightarrow> real \<Rightarrow> real \<Rightarrow> Bus" where
  "update_bus_estimate b stops lat_f lng_f =
     (let old_nearest = nearest_stop_index b;
          old_eta_smoothed = eta_smoothed_seconds b
      in case min_index (map (\<lambda>s. haversine lat_f lng_f (latitude s) (longitude s)) stops) of
           None \<Rightarrow> b
         | Some nearest_idx \<Rightarrow>
             let dist_km = haversine lat_f lng_f (latitude (stops ! nearest_idx))
                                     (longitude (stops ! nearest_idx));
                 eta0 = py_int ((dist_km / 25) * 3600);
                 eta = (if eta0 < 1 then 1 else eta0);
                 smoothed = (case old_eta_smoothed of
                               None \<Rightarrow> real_of_int eta
                             | Some old \<Rightarrow> (3 / 10) * real_of_int eta + (1 - 3 / 10) * old);
                 b1 = b\<lparr>nearest_stop_index := Some nearest_idx, eta_seconds := Some eta,
                         eta_smoothed_seconds := Some smoothed\<rparr>
             in (case old_nearest of
                   None \<Rightarrow> b1
                 | Some old \<Rightarrow>
                     if nearest_idx > old
                     then b1\<lparr>eta_passed_counter := eta_passed_counter b1 + 1\<rparr>
                     else if nearest_idx < old then b1\<lparr>eta_passed_counter := 0\<rparr>
                     else b1))"

definition update_location :: "db \<Rightarrow> nat option \<Rightarrow> real \<Rightarrow> real \<Rightarrow> db" where
  "update_location d driver_profile lat_f lng_f =
     (case driver_profile of
        None \<Rightarrow> d
      | Some drv_id \<Rightarrow>
          (case map_of (drivers d) drv_id of
             None \<Rightarrow> d
           | Some drv \<Rightarrow>
               let d1 = d\<lparr>drivers := AList.update drv_id
                           (drv\<lparr>driver_current_lat := Some lat_f,
                                 driver_current_lng := Some lng_f\<rparr>) (drivers d)\<rparr>
               in (case find (\<lambda>(i, b). driver b = Some drv_id) (buses d1) of
                     None \<Rightarrow> d1
                   | Some (bid, b) \<Rightarrow>
                       let b1 = b\<lparr>current_lat := Some lat_f, current_lng := Some lng_f\<rparr>;
                           b2 = (case route b1 of
                                   None \<Rightarrow> b1
                                 | Some r \<Rightarrow> update_bus_estimate b1 (route_stops d1 r) lat_f lng_f)
                       in d1\<lparr>buses := AList.update bid b2 (buses d1)\<rparr>)))"

text \<open>
  The pickup ETA of \<open>homepage\<close>, for a bus with a live position that is not stale (the
  code after the \<open>no_location\<close> branch).  Taken as given, since they come from modules
  outside these sources: \<open>dist_to_nearest\<close> and \<open>dist_bus_to_pickup_km\<close>, the results of
  \<open>get_road_distance_with_fallback\<close>, and \<open>dist_along_route_meters\<close>, the distance
  \<open>dijkstra\<close> returns (\<open>None\<close> for \<open>float('inf')\<close>).  \<open>Skipped\<close> is the \<open>continue\<close> that
  leaves the bus out of the result.  The status \<open>error\<close>, given when one of these
  calls raises or the graph is empty, is not part of the model.
\<close>

datatype eta_result = Skipped | Eta "int option" string int

definition pickup_eta ::
    "nat \<Rightarrow> nat \<Rightarrow> nat \<Rightarrow> nat \<Rightarrow> real \<Rightarrow> real \<Rightarrow> real option \<Rightarrow> eta_result" where
  "pickup_eta nearest_stop_idx pickup_idx nearest_stop_id pickup_stop_id
       dist_to_nearest dist_bus_to_pickup_km dist_along_route_meters =
     (if nearest_stop_idx > pickup_idx then Eta None ''passed'' 0
      else
        (case (if nearest_stop_id = pickup_stop_id
               then Some (dist_bus_to_pickup_km, 0)
               else (case dist_along_route_meters of
                       None \<Rightarrow> None
                     | Some m \<Rightarrow>
                         if m \<ge> 0
                         then Some (dist_to_nearest + m / 1000,
                                    (if int pickup_idx - int nearest_stop_idx < 0 then 0
                                     else int pickup_idx - int nearest_stop_idx))
                         else None)) of
           None \<Rightarrow> Skipped
         | Some (total_distance_km, stops_between) \<Rightarrow>
             let total_stop_delay_seconds = stops_between * 60;
                 total_stop_delay_minutes = real_of_int total_stop_delay_seconds / 60;
                 travel_time_hours = total_distance_km / 25;
                 travel_time_minutes = travel_time_hours * 60;
                 total_time_minutes = travel_time_minutes + total_stop_delay_minutes;
                 eta = max 1 (py_int total_time_minutes)
             in if eta \<le> 2 then Eta (Some eta) ''arriving_soon'' stops_between
                else if eta \<le> 10 then Eta (Some eta) ''catchable'' stops_between
                else if eta \<le> 30 then Eta (Some eta) ''far'' stops_between
                else Eta None ''no_route'' stops_between))"

section \<open>Reference notions used in the statements\<close>

text \<open>The foreign key \<open>bus.driver\<close> points to an existing Driver row.\<close>

definition driver_row_exists :: "db \<Rightarrow> Bus \<Rightarrow> bool" where
  "driver_row_exists d b =
     (case driver b of None \<Rightarrow> True | Some k \<Rightarrow> map_of (drivers d) k \<noteq> None)"

text \<open>
  The accepted updates of a session, in order: the fixes of the location events of a
  driver connection that carry both coordinates and that \<open>_save_bus_location\<close>
  answers with \<open>True\<close>.
\<close>

fun accepted_fixes :: "bool \<Rightarrow> nat \<Rightarrow> db \<Rightarrow> (nat \<times> inbound) list \<Rightarrow> (real \<times> real) list" where
  "accepted_fixes drv bid d [] = []"
| "accepted_fixes drv bid d ((now, Data ty (Some lat_v) (Some lng_v)) # ms) =
     (if ty = Some ''location'' \<and> drv
      then (case save_bus_location d now bid lat_v lng_v of
              (d', ok) \<Rightarrow> (if ok then [(lat_v, lng_v)] else []) @ accepted_fixes drv bid d' ms)
      else accepted_fixes drv bid d ms)"
| "accepted_fixes drv bid d ((now, m) # ms) = accepted_fixes drv bid d ms"

text \<open>
  What a session is expected to publish for its accepted updates: the update numbered
  \<open>n\<close> goes out as a live \<open>location_update\<close> with sequence \<open>n\<close>, and the one numbered 1
  is preceded by the \<open>connected\<close> status.  \<open>live_events_from k\<close> numbers from \<open>k + 1\<close>.
\<close>

definition connected :: event where
  "connected = Tracking_status ''connected'' ''Driver started tracking''"

fun live_events_from :: "nat \<Rightarrow> nat \<Rightarrow> (real \<times> real) list \<Rightarrow> (topic \<times> event) list" where
  "live_events_from k bid [] = []"
| "live_events_from k bid ((lat_v, lng_v) # fs) =
     (if Suc k = 1 then [(Bus_topic bid, connected)] else [])
     @ [(Bus_topic bid, Location_update lat_v lng_v False (int (Suc k)))]
     @ live_events_from (Suc k) bid fs"

definition live_events :: "nat \<Rightarrow> (real \<times> real) list \<Rightarrow> (topic \<times> event) list" where
  "live_events bid fs = live_events_from 0 bid fs"

text \<open>The sequence numbers of the \<open>location_update\<close> events of a list, in order.\<close>

fun location_sequences :: "event list \<Rightarrow> int list" where
  "location_sequences [] = []"
| "location_sequences (Location_update _ _ _ n # es) = n # location_sequences es"
| "location_sequences (Tracking_status _ _ # es) = location_sequences es"

text \<open>Ids are positive: no driver's user id, no user id and no message sender is 0.\<close>

definition positive_ids :: "db \<Rightarrow> bool" where
  "positive_ids d =
     (list_all (\<lambda>(k, drv). user drv \<noteq> 0) (drivers d)
      \<and> list_all (\<lambda>m. sender m \<noteq> 0) (messages d))"

text \<open>An id that counts as given: present and not zero.\<close>

definition effective_id :: "nat option \<Rightarrow> nat option" where
  "effective_id v = (if truthy_id v then v else None)"

text \<open>The user id of the driver assigned to a bus.\<close>

definition assigned_driver_user :: "db \<Rightarrow> nat \<Rightarrow> nat option" where
  "assigned_driver_user d bid =
     (case map_of (buses d) bid of
        None \<Rightarrow> None
      | Some b \<Rightarrow>
          (case driver b of
             None \<Rightarrow> None
           | Some k \<Rightarrow>
               (case map_of (drivers d) k of
                  None \<Rightarrow> None
                | Some drv \<Rightarrow> if user drv \<in> set (users d) then Some (user drv) else None)))"

text \<open>The sender of the most recent message received by \<open>uid\<close>.\<close>

definition most_recent_sender :: "db \<Rightarrow> nat \<Rightarrow> nat option" where
  "most_recent_sender d uid =
     (case filter (\<lambda>m. recipient m = uid) (messages d) of
        [] \<Rightarrow> None
      | m # ms \<Rightarrow> Some (sender (last (m # ms))))"

text \<open>The sender of the most recent message received by \<open>uid\<close> from somebody else.\<close>

definition most_recent_other_sender :: "db \<Rightarrow> nat \<Rightarrow> nat option" where
  "most_recent_other_sender d uid =
     (case filter (\<lambda>m. recipient m = uid \<and> sender m \<noteq> uid) (messages d) of
        [] \<Rightarrow> None
      | m # ms \<Rightarrow> Some (sender (last (m # ms))))"

text \<open>The recipient as the specification resolves it, in its order (a), (b), (c).\<close>

definition stated_recipient :: "db \<Rightarrow> nat \<Rightarrow> nat option \<Rightarrow> nat option \<Rightarrow> nat option" where
  "stated_recipient d sid recipient_id bus_ref =
     (if truthy_id recipient_id then recipient_id
      else if truthy_id bus_ref \<and> \<not> is_sender_driver d sid
           then assigned_driver_user d (the bus_ref)
      else if is_sender_driver d sid then most_recent_sender d sid
      else None)"

text \<open>The same with step (c) restricted to messages from other users.\<close>

definition amended_recipient :: "db \<Rightarrow> nat \<Rightarrow> nat option \<Rightarrow> nat option \<Rightarrow> nat option" where
  "amended_recipient d sid recipient_id bus_ref =
     (if truthy_id recipient_id then recipient_id
      else if truthy_id bus_ref \<and> \<not> is_sender_driver d sid
           then assigned_driver_user d (the bus_ref)
      else if is_sender_driver d sid then most_recent_other_sender d sid
      else None)"

text \<open>The edges of a graph, each with its source, in the order of the entries.\<close>

definition edges_of :: "graph \<Rightarrow> (nat \<times> nat \<times> real) list" where
  "edges_of g = concat (map (\<lambda>(u, es). map (\<lambda>(v, w). (u, v, w)) es) g)"

text \<open>
  The weight the route graph is to give the edge that leaves \<open>rs\<close>: the stored distance
  to the next stop when there is one and it is not zero, the great-circle distance
  between the two stops otherwise.
\<close>

definition stated_weight :: "RouteStop \<Rightarrow> RouteStop \<Rightarrow> real" where
  "stated_weight rs next_rs =
     (case distance_to_next_m rs of
        Some stored \<Rightarrow>
          if stored \<noteq> 0 then stored
          else calculate_distance (latitude (stop rs)) (longitude (stop rs))
                 (latitude (stop next_rs)) (longitude (stop next_rs))
      | None \<Rightarrow>
          calculate_distance (latitude (stop rs)) (longitude (stop rs))
            (latitude (stop next_rs)) (longitude (stop next_rs)))"

text \<open>
  The total time in minutes of the ETA model: travel at 25 km/h plus one minute for
  each stop between the nearest stop and the pickup.
\<close>

definition total_minutes :: "real \<Rightarrow> nat \<Rightarrow> nat \<Rightarrow> real" where
  "total_minutes total_distance_km nearest_idx pickup_idx =
     total_distance_km / 25 * 60 + real_of_int (max 0 (int pickup_idx - int nearest_idx))"

text \<open>
  The ETA as the specification words it, with rounding to the nearest minute (halves
  upwards; the inputs used below are not halves).
\<close>

definition stated_eta :: "real \<Rightarrow> nat \<Rightarrow> nat \<Rightarrow> int" where
  "stated_eta total_distance_km nearest_idx pickup_idx =
     max 1 (round (total_minutes total_distance_km nearest_idx pickup_idx))"

text \<open>
  The entry of the route graph for the stop at position \<open>i\<close>: its id, with the one edge
  to the next stop, or with no edge for the last stop.
\<close>

definition graph_entry :: "RouteStop list \<Rightarrow> nat \<Rightarrow> nat \<times> (nat \<times> real) list" where
  "graph_entry rss i =
     (stop_id (stop (rss ! i)),
      if Suc i < length rss
      then [(stop_id (stop (rss ! Suc i)), edge_distance (rss ! i) (rss ! Suc i))]
      else [])"

text \<open>The classification of an ETA in minutes by \<open>homepage\<close>; above 30 it is dropped.\<close>

definition eta_outcome :: "int \<Rightarrow> int \<Rightarrow> eta_result" where
  "eta_outcome e stops_between =
     (if e \<le> 2 then Eta (Some e) ''arriving_soon'' stops_between
      else if e \<le> 10 then Eta (Some e) ''catchable'' stops_between
      else if e \<le> 30 then Eta (Some e) ''far'' stops_between
      else Eta None ''no_route'' stops_between)"

section \<open>Example data\<close>

definition south_stop :: Stop where
  "south_stop = \<lparr>stop_id = 1, latitude = - 90, longitude = 1\<rparr>"

definition north_stop :: Stop where
  "north_stop = \<lparr>stop_id = 2, latitude = 90, longitude = 1\<rparr>"

text \<open>A bus that is not being tracked, on route 1, driven by driver 1 (user 7).\<close>

definition idle_bus :: Bus where
  "idle_bus = \<lparr>driver = Some 1, route = Some 1, current_lat = None, current_lng = None,
               eta_seconds = None, eta_smoothed_seconds = None, eta_passed_counter = 0,
               nearest_stop_index = None, updated_at = None\<rparr>"

definition example_db :: "Bus \<Rightarrow> db" where
  "example_db b =
     \<lparr>buses = [(1, b)],
      drivers = [(1, \<lparr>user = 7, driver_current_lat = None, driver_current_lng = None\<rparr>)],
      users = [7, 8],
      route_stops = (\<lambda>r. if r = 1 then [south_stop, north_stop]
                         else if r = 2 then [north_stop, south_stop] else []),
      reverse_route = (\<lambda>r. if r = 1 then Some 2 else if r = 2 then Some 1 else None),
      messages = []\<rparr>"

text \<open>The same bus with a stored position on the equator.\<close>

definition equator_bus :: Bus where
  "equator_bus = idle_bus\<lparr>current_lat := Some 0, current_lng := Some (853 / 10)\<rparr>"

text \<open>The same bus tracked at the first stop of its route.\<close>

definition tracked_bus :: Bus where
  "tracked_bus = idle_bus\<lparr>current_lat := Some (- 90), current_lng := Some 1,
                          nearest_stop_index := Some 0, eta_seconds := Some 1,
                          eta_smoothed_seconds := Some 1, updated_at := Some 3\<rparr>"

text \<open>A route of three stops: a stored distance, a stored zero, and no stored distance.\<close>

definition mid_stop :: Stop where
  "mid_stop = \<lparr>stop_id = 3, latitude = 0, longitude = 0\<rparr>"

definition example_route :: "RouteStop list" where
  "example_route =
     [\<lparr>stop = mid_stop, distance_to_next_m = Some 500\<rparr>,
      \<lparr>stop = north_stop, distance_to_next_m = Some 0\<rparr>,
      \<lparr>stop = south_stop, distance_to_next_m = None\<rparr>]"

text \<open>
  The example database after user 8 has written to driver 7 and driver 7 has then
  written to themself.
\<close>

definition chat_db :: db where
  "chat_db = (example_db idle_bus)
     \<lparr>messages := [\<lparr>sender = 8, recipient = 7, bus = None, content = ''hello''\<rparr>,
                   \<lparr>sender = 7, recipient = 7, bus = None, content = ''note''\<rparr>]\<rparr>"

definition passenger :: LocationConsumer where
  "passenger = \<lparr>bus_id = 1, sequence_number = 0, is_driver = False\<rparr>"

definition driver_session :: LocationConsumer where
  "driver_session = \<lparr>bus_id = 1, sequence_number = 0, is_driver = True\<rparr>"

section \<open>Properties of the location socket\<close>

text \<open>
  C9.  A location event that arrives on a connection that is not the driver's is
  dropped: the consumer and the database stay as they were, nothing is sent to any
  group and nothing is sent back to the sender.
\<close>

theorem passenger_location_discarded:
  "\<not> is_driver c \<Longrightarrow> receive c d now (Data (Some ''location'') lat lng) = (c, d, [], [])"
  by (simp add: receive_def)


theorem passenger_location_discarded_witness:
  "receive passenger (example_db tracked_bus) 9 (Data (Some ''location'') (Some 90) (Some 1))
     = (passenger, example_db tracked_bus, [], [])"
  using passenger_location_discarded [of passenger "example_db tracked_bus" 9 "Some 90" "Some 1"]
  by (simp add: passenger_def)

subsection \<open>The haversine formula\<close>

lemma haversine_product:
  fixes x y :: real
  shows "cos (x + y) * cos (x - y) = (cos x)\<^sup>2 - (sin y)\<^sup>2"
proof -
  have "cos (x + y) * cos (x - y) = (cos x * cos y - sin x * sin y) * (cos x * cos y + sin x * sin y)"
    by (simp only: cos_add cos_diff)
  also have "\<dots> = (cos x)\<^sup>2 * (cos y)\<^sup>2 - (sin x)\<^sup>2 * (sin y)\<^sup>2"
    by (simp add: power2_eq_square algebra_simps)
  also have "\<dots> = (cos x)\<^sup>2 * (1 - (sin y)\<^sup>2) - (1 - (cos x)\<^sup>2) * (sin y)\<^sup>2"
    by (simp only: cos_squared_eq [of y] sin_squared_eq [of x])
  also have "\<dots> = (cos x)\<^sup>2 - (sin y)\<^sup>2"
    by (simp add: algebra_simps)
  finally show ?thesis .
qed

lemma sin_squared_le_one: "(sin (x::real))\<^sup>2 \<le> 1"
  using sin_cos_squared_add [of x] zero_le_power2 [of "cos x"] by linarith

lemma cos_squared_le_one: "(cos (x::real))\<^sup>2 \<le> 1"
  using sin_cos_squared_add [of x] zero_le_power2 [of "sin x"] by linarith

lemma haversine_argument_range:
  fixes phi1 phi2 dl :: real
  defines "a \<equiv> (sin ((phi2 - phi1) / 2))\<^sup>2 + cos phi1 * cos phi2 * (sin (dl / 2))\<^sup>2"
  shows "0 \<le> a \<and> a \<le> 1"
proof -
  let ?x = "(phi1 + phi2) / 2" and ?y = "(phi2 - phi1) / 2"
  let ?s = "(sin (dl / 2))\<^sup>2"
  have p: "cos phi1 * cos phi2 = (cos ?x)\<^sup>2 - (sin ?y)\<^sup>2"
  proof -
    have "cos phi1 * cos phi2 = cos (?x + ?y) * cos (?x - ?y)"
      by (simp add: field_simps)
    then show ?thesis by (simp only: haversine_product)
  qed
  have s: "0 \<le> ?s" "?s \<le> 1"
    by (simp_all add: sin_squared_le_one)
  have a: "a = (1 - ?s) * (sin ?y)\<^sup>2 + ?s * (cos ?x)\<^sup>2"
    unfolding a_def p by (simp add: algebra_simps)
  have y: "0 \<le> (sin ?y)\<^sup>2" "(sin ?y)\<^sup>2 \<le> 1" and x: "0 \<le> (cos ?x)\<^sup>2" "(cos ?x)\<^sup>2 \<le> 1"
    by (simp_all add: sin_squared_le_one cos_squared_le_one)
  have lo: "0 \<le> a"
    unfolding a using s y x by (intro add_nonneg_nonneg mult_nonneg_nonneg) simp_all
  have "(1 - ?s) * (sin ?y)\<^sup>2 \<le> (1 - ?s) * 1" "?s * (cos ?x)\<^sup>2 \<le> ?s * 1"
    using s y x by (intro mult_left_mono; simp)+
  then have hi: "a \<le> 1" unfolding a by simp
  from lo hi show ?thesis by simp
qed

text \<open>
  On the reals both square roots of the haversine formula are taken of numbers in
  \<open>[0, 1]\<close>, so \<open>math.sqrt\<close> never raises there.
\<close>

lemma haversine_sqrt_arguments:
  "0 \<le> (sin (radians (lat2 - lat1) / 2))\<^sup>2
        + cos (radians lat1) * cos (radians lat2) * (sin (radians (lon2 - lon1) / 2))\<^sup>2
   \<and> (sin (radians (lat2 - lat1) / 2))\<^sup>2
        + cos (radians lat1) * cos (radians lat2) * (sin (radians (lon2 - lon1) / 2))\<^sup>2 \<le> 1"
proof -
  have r: "radians (lat2 - lat1) = radians lat2 - radians lat1"
    by (simp add: radians_def diff_divide_distrib algebra_simps)
  show ?thesis
    unfolding r
    by (rule haversine_argument_range
          [where ?phi1.0 = "radians lat1" and ?phi2.0 = "radians lat2"
             and dl = "radians (lon2 - lon1)"])
qed

subsection \<open>Distances at the inputs used below\<close>

lemma calculate_distance_same: "calculate_distance x y x y = 0"
  by (simp add: calculate_distance_def haversine_with_def radians_def atan2_def)

lemma calculate_distance_poles: "calculate_distance (- 90) 1 90 1 = 6371000 * pi"
  by (simp add: calculate_distance_def haversine_with_def radians_def atan2_def)

lemma haversine_same: "haversine x y x y = 0"
  by (simp add: haversine_def haversine_with_def radians_def atan2_def)

lemma haversine_poles: "haversine 90 1 (- 90) 1 = 6371 * pi"
  by (simp add: haversine_def haversine_with_def radians_def atan2_def)

subsection \<open>The movement threshold\<close>

lemma save_True_stored:
  assumes "save_bus_location d now bid lat_f lng_f = (d', True)"
  shows "\<exists>b'. map_of (buses d') bid = Some b' \<and> current_lat b' = Some lat_f
            \<and> current_lng b' = Some lng_f"
  using assms
  by (auto simp: save_bus_location_def Let_def update_conv' save_nearest_stop_def
           split: option.splits if_splits)

lemma save_rejected_unchanged:
  assumes "map_of (buses d) bid = Some b" "truthy (current_lat b)" "truthy (current_lng b)"
    "calculate_distance (the (current_lat b)) (the (current_lng b)) lat_f lng_f < 25"
  shows "save_bus_location d now bid lat_f lng_f = (d, False)"
  using assms by (simp add: save_bus_location_def)

lemma save_accepted:
  assumes "map_of (buses d) bid = Some b"
    "\<not> (truthy (current_lat b) \<and> truthy (current_lng b) \<and>
        calculate_distance (the (current_lat b)) (the (current_lng b)) lat_f lng_f < 25)"
    "driver_row_exists d b"
  shows "snd (save_bus_location d now bid lat_f lng_f) = True"
  using assms
  by (auto simp: save_bus_location_def driver_row_exists_def Let_def split: option.splits)

text \<open>
  C10.  When the stored latitude or the stored longitude of a bus is exactly 0, the
  movement check is skipped: whatever the incoming fix, \<open>_save_bus_location\<close> returns
  \<open>True\<close> and the bus row then holds the fix.
\<close>

theorem zero_coordinate_skips_movement_check:
  assumes "map_of (buses d) bid = Some b"
    and "current_lat b = Some 0 \<or> current_lng b = Some 0"
    and "driver_row_exists d b"
  shows "\<exists>d' b'. save_bus_location d now bid lat_f lng_f = (d', True)
           \<and> map_of (buses d') bid = Some b'
           \<and> current_lat b' = Some lat_f \<and> current_lng b' = Some lng_f"
proof -
  from assms(2) have "\<not> (truthy (current_lat b) \<and> truthy (current_lng b))"
    by (auto simp: truthy_def)
  with assms(1,3) have "snd (save_bus_location d now bid lat_f lng_f) = True"
    by (intro save_accepted) auto
  then obtain d' where d': "save_bus_location d now bid lat_f lng_f = (d', True)"
    by (cases "save_bus_location d now bid lat_f lng_f") auto
  with save_True_stored [OF d'] show ?thesis by blast
qed

theorem zero_coordinate_skips_movement_check_witness:
  "calculate_distance 0 (853 / 10) 0 (853 / 10) < 25 \<and>
   (\<exists>d' b'. save_bus_location (example_db equator_bus) 9 1 0 (853 / 10) = (d', True)
      \<and> map_of (buses d') 1 = Some b'
      \<and> current_lat b' = Some 0 \<and> current_lng b' = Some (853 / 10))"
  using zero_coordinate_skips_movement_check
          [of "example_db equator_bus" 1 equator_bus 9 0 "853 / 10"]
  by (simp add: calculate_distance_same example_db_def equator_bus_def idle_bus_def
        driver_row_exists_def)

lemma poles_far: "\<not> 6371000 * pi < 25"
  using pi_ge_two by linarith

lemma pole_key_positive: "0 < 6371 * pi"
  using pi_ge_two by linarith

lemma update_keeps_projection:
  "map_of al k = Some v \<Longrightarrow> g v' = g v \<Longrightarrow>
   map (\<lambda>(i, x). (i, g x)) (AList.update k v' al) = map (\<lambda>(i, x). (i, g x)) al"
  by (induction al) (auto split: if_splits)

lemma save_keeps_passed_counter:
  "map (\<lambda>(i, x). (i, eta_passed_counter x)) (buses (fst (save_bus_location d now bid lat_f lng_f)))
     = map (\<lambda>(i, x). (i, eta_passed_counter x)) (buses d)"
  by (auto simp: save_bus_location_def Let_def save_nearest_stop_def update_keeps_projection update_conv'
           split: option.splits)

text \<open>
  C1.  The claim holds whenever both stored coordinates are non-zero (lemmas
  \<open>save_rejected_unchanged\<close> and \<open>save_accepted\<close>); it fails for a stored position on
  the equator or on the prime meridian.  Here the bus is stored at (0, 85.3) and the
  driver sends the very same fix: the distance is 0 m, and yet the update is accepted,
  numbered and broadcast.
\<close>

theorem equator_fix_accepted_without_movement:
  "calculate_distance 0 (853 / 10) 0 (853 / 10) = 0 \<and>
   (\<exists>d'. receive driver_session (example_db equator_bus) 9
            (Data (Some ''location'') (Some 0) (Some (853 / 10)))
          = (driver_session\<lparr>sequence_number := 1\<rparr>, d',
             [(Bus_topic 1, connected), (Bus_topic 1, Location_update 0 (853 / 10) False 1)], []))"
proof -
  have "snd (save_bus_location (example_db equator_bus) 9 1 0 (853 / 10)) = True"
    by (rule save_accepted [of _ _ equator_bus])
       (simp_all add: example_db_def equator_bus_def idle_bus_def truthy_def driver_row_exists_def)
  then obtain d' where "save_bus_location (example_db equator_bus) 9 1 0 (853 / 10) = (d', True)"
    by (cases "save_bus_location (example_db equator_bus) 9 1 0 (853 / 10)") auto
  then have "receive driver_session (example_db equator_bus) 9
            (Data (Some ''location'') (Some 0) (Some (853 / 10)))
          = (driver_session\<lparr>sequence_number := 1\<rparr>, d',
             [(Bus_topic 1, connected), (Bus_topic 1, Location_update 0 (853 / 10) False 1)], [])"
    by (simp add: receive_def driver_session_def connected_def)
  then show ?thesis by (auto simp: calculate_distance_same)
qed

text \<open>
  C7.  The socket path never touches the passed-stop counter
  (\<open>save_keeps_passed_counter\<close>).  Here the stored nearest-stop index is 0 and the
  accepted fix moves it to 1, while the counter stays at 0.
\<close>

theorem websocket_update_leaves_passed_counter:
  "nearest_stop_index tracked_bus = Some 0 \<and> eta_passed_counter tracked_bus = 0 \<and>
   save_bus_location (example_db tracked_bus) 9 1 90 1 =
     (example_db (tracked_bus\<lparr>current_lat := Some 90, current_lng := Some 1,
          eta_seconds := Some 1, eta_smoothed_seconds := Some 1,
          nearest_stop_index := Some 1, updated_at := Some 9\<rparr>)
        \<lparr>drivers := [(1, \<lparr>user = 7, driver_current_lat = Some 90, driver_current_lng = Some 1\<rparr>)]\<rparr>,
      True)"
  by (simp add: save_bus_location_def example_db_def tracked_bus_def idle_bus_def Let_def
        save_nearest_stop_def min_index_def south_stop_def north_stop_def
        calculate_distance_poles haversine_poles haversine_same poles_far pole_key_positive
        truthy_def py_int_def)

text \<open>
  The HTTP path, for comparison, does keep the counter: with a previous nearest-stop
  index stored, \<open>update_location\<close> increments it when the index grows, resets it when
  the index shrinks and leaves it otherwise.
\<close>

lemma update_location_counter_rule:
  assumes "map_of (drivers d) k = Some drv"
    and "find (\<lambda>(i, b). driver b = Some k) (buses d) = Some (bid, b)"
    and "route b = Some r"
    and "min_index (map (\<lambda>s. haversine lat_f lng_f (latitude s) (longitude s)) (route_stops d r))
           = Some new_idx"
    and "nearest_stop_index b = Some old_idx"
  shows "\<exists>b'. map_of (buses (update_location d (Some k) lat_f lng_f)) bid = Some b'
           \<and> nearest_stop_index b' = Some new_idx
           \<and> eta_passed_counter b' =
               (if new_idx > old_idx then eta_passed_counter b + 1
                else if new_idx < old_idx then 0
                else eta_passed_counter b)"
  using assms
  by (simp add: update_location_def update_bus_estimate_def Let_def update_conv')


subsection \<open>Disconnecting\<close>

text \<open>
  C4.  When the driver session of a bus disconnects, the bus row loses its position, its
  nearest-stop index and both ETAs, the row of its driver loses its position, and
  \<open>tracking_status=disconnected\<close> goes to the topic of the bus.  When any other session
  disconnects, the database is left as it is and nothing is published.
\<close>

theorem disconnect_clears_only_for_driver:
  assumes "map_of (buses d) (bus_id c) = Some b" and "driver_row_exists d b"
  shows "if is_driver c
         then (\<exists>d'. disconnect c d =
                  (d', [(Bus_topic (bus_id c),
                         Tracking_status ''disconnected'' ''Driver stopped tracking'')])
               \<and> map_of (buses d') (bus_id c) =
                   Some (b\<lparr>current_lat := None, current_lng := None, nearest_stop_index := None,
                           eta_seconds := None, eta_smoothed_seconds := None\<rparr>)
               \<and> (case driver b of
                     None \<Rightarrow> True
                   | Some k \<Rightarrow>
                       (\<exists>drv. map_of (drivers d') k = Some drv
                          \<and> driver_current_lat drv = None \<and> driver_current_lng drv = None)))
         else disconnect c d = (d, [])"
  using assms
  by (auto simp: disconnect_def clear_bus_location_def driver_row_exists_def Let_def update_conv'
           split: option.splits)

theorem disconnect_clears_only_for_driver_witness:
  "snd (disconnect driver_session (example_db tracked_bus)) =
     [(Bus_topic 1, Tracking_status ''disconnected'' ''Driver stopped tracking'')]
   \<and> map_of (buses (fst (disconnect driver_session (example_db tracked_bus)))) 1 =
       Some (idle_bus\<lparr>updated_at := Some 3\<rparr>)
   \<and> disconnect passenger (example_db tracked_bus) = (example_db tracked_bus, [])"
  using disconnect_clears_only_for_driver [of "example_db tracked_bus" driver_session tracked_bus]
    disconnect_clears_only_for_driver [of "example_db tracked_bus" passenger tracked_bus]
  by (simp add: disconnect_def clear_bus_location_def Let_def example_db_def tracked_bus_def
        idle_bus_def driver_session_def passenger_def driver_row_exists_def)

subsection \<open>Sequence numbers of a session\<close>

lemma receive_keeps_role:
  "receive c d now m = (c', d', out, rep) \<Longrightarrow> is_driver c' = is_driver c \<and> bus_id c' = bus_id c"
  by (auto simp: receive_def split: inbound.splits if_splits option.splits prod.splits bool.splits)

lemma run_out_Cons:
  "receive c d now m = (c1, d1, out, rep) \<Longrightarrow>
   snd (snd (run c d ((now, m) # ms))) = out @ snd (snd (run c1 d1 ms))"
  by (simp split: prod.splits)

lemma receive_accepted:
  assumes "is_driver c" "save_bus_location d now (bus_id c) la lo = (d', True)"
  shows "receive c d now (Data (Some ''location'') (Some la) (Some lo)) =
           (c\<lparr>sequence_number := sequence_number c + 1\<rparr>, d',
            (if sequence_number c + 1 = 1 then [(Bus_topic (bus_id c), connected)] else [])
            @ [(Bus_topic (bus_id c), Location_update la lo False (sequence_number c + 1))], [])"
  using assms by (simp add: receive_def connected_def)

lemma receive_rejected:
  assumes "is_driver c" "save_bus_location d now (bus_id c) la lo = (d', False)"
  shows "receive c d now (Data (Some ''location'') (Some la) (Some lo)) = (c, d', [], [])"
  using assms by (simp add: receive_def)

lemma receive_ignored:
  assumes "\<not> (\<exists>la lo. m = Data (Some ''location'') (Some la) (Some lo) \<and> is_driver c)"
  shows "receive c d now m = (c, d, [], [])"
  using assms by (auto simp: receive_def split: inbound.splits option.splits)

lemma accepted_fixes_ignored:
  assumes "\<not> (\<exists>la lo. m = Data (Some ''location'') (Some la) (Some lo) \<and> drv)"
  shows "accepted_fixes drv bid d ((now, m) # ms) = accepted_fixes drv bid d ms"
  using assms by (cases "(drv, bid, d, (now, m) # ms)" rule: accepted_fixes.cases) auto

lemma run_events:
  "sequence_number c = int k \<Longrightarrow>
   snd (snd (run c d ms)) = live_events_from k (bus_id c) (accepted_fixes (is_driver c) (bus_id c) d ms)"
proof (induction ms arbitrary: c d k)
  case Nil
  then show ?case by simp
next
  case (Cons x ms)
  obtain now m where x: "x = (now, m)" by (cases x)
  show ?case
  proof (cases "\<exists>la lo. m = Data (Some ''location'') (Some la) (Some lo) \<and> is_driver c")
    case True
    then obtain la lo where m: "m = Data (Some ''location'') (Some la) (Some lo)" and drv: "is_driver c"
      by blast
    obtain d' ok where s: "save_bus_location d now (bus_id c) la lo = (d', ok)"
      by (cases "save_bus_location d now (bus_id c) la lo") auto
    show ?thesis
    proof (cases ok)
      case True
      have sT: "save_bus_location d now (bus_id c) la lo = (d', True)" using s True by simp
      let ?c1 = "c\<lparr>sequence_number := sequence_number c + 1\<rparr>"
      have seq: "sequence_number ?c1 = int (Suc k)" using Cons.prems by simp
      have ih: "snd (snd (run ?c1 d' ms))
          = live_events_from (Suc k) (bus_id c) (accepted_fixes (is_driver c) (bus_id c) d' ms)"
        using Cons.IH [OF seq, of d'] by simp
      have first: "(sequence_number c + 1 = 1) = (Suc k = 1)" using Cons.prems by simp
      have num: "sequence_number c + 1 = int (Suc k)" using Cons.prems by simp
      have acc: "accepted_fixes (is_driver c) (bus_id c) d (x # ms)
          = (la, lo) # accepted_fixes (is_driver c) (bus_id c) d' ms"
        using x m drv s True by simp
      show ?thesis
        unfolding x run_out_Cons [OF receive_accepted [OF drv sT, unfolded m [symmetric]]]
          acc [unfolded x]
        using ih Cons.prems by simp
    next
      case False
      have sF: "save_bus_location d now (bus_id c) la lo = (d', False)" using s False by simp
      have acc: "accepted_fixes (is_driver c) (bus_id c) d (x # ms)
          = accepted_fixes (is_driver c) (bus_id c) d' ms"
        using x m drv s False by simp
      show ?thesis
        unfolding x run_out_Cons [OF receive_rejected [OF drv sF, unfolded m [symmetric]]]
          acc [unfolded x] Cons.IH [OF Cons.prems, of d']
        by simp
    qed
  next
    case False
    show ?thesis
      unfolding x run_out_Cons [OF receive_ignored [OF False]] accepted_fixes_ignored [OF False]
        Cons.IH [OF Cons.prems, of d]
      by simp
  qed
qed

lemma location_sequences_append:
  "location_sequences (xs @ ys) = location_sequences xs @ location_sequences ys"
  by (induction xs rule: location_sequences.induct) auto

lemma live_sequences:
  "location_sequences (map snd (live_events_from k bid fs)) = map int [Suc k..<Suc k + length fs]"
proof (induction fs arbitrary: k)
  case Nil
  then show ?case by simp
next
  case (Cons f fs)
  obtain la lo where f: "f = (la, lo)" by (cases f)
  have e: "Suc k + length (f # fs) = Suc (Suc k) + length fs" by simp
  have u: "[Suc k..<Suc k + length (f # fs)] = Suc k # [Suc (Suc k)..<Suc (Suc k) + length fs]"
    unfolding e by (rule upt_conv_Cons) simp
  have "location_sequences (map snd (live_events_from k bid (f # fs)))
      = int (Suc k) # location_sequences (map snd (live_events_from (Suc k) bid fs))"
    unfolding f by (simp add: connected_def location_sequences_append)
  also have "\<dots> = int (Suc k) # map int [Suc (Suc k)..<Suc (Suc k) + length fs]"
    using Cons.IH [of "Suc k"] by simp
  finally show ?case unfolding u by simp
qed

lemma connect_fresh: "sequence_number (fst (connect d bid usr)) = 0 \<and> bus_id (fst (connect d bid usr)) = bid"
  by (simp add: connect_def Let_def split: option.splits prod.splits)

lemma replay_sequence: "set (location_sequences (snd (connect d bid usr))) \<subseteq> {- 1}"
  by (simp add: connect_def Let_def waiting_def split: option.splits prod.splits)

text \<open>
  C2.  A session starts with \<open>connect\<close>.  What it publishes afterwards is exactly: for
  the \<open>n\<close>-th accepted update, a live \<open>location_update\<close> with sequence \<open>n\<close>, preceded
  for \<open>n = 1\<close> by \<open>tracking_status=connected\<close>.  So the sequence numbers are
  \<open>1, 2, ..., k\<close>, the first event published is the \<open>connected\<close> status, and a
  \<open>location_update\<close> sent by \<open>connect\<close> itself (the replay) has sequence \<open>-1\<close>.
\<close>

theorem session_sequence_numbers:
  "let c0 = fst (connect d bid usr);
       fixes = accepted_fixes (is_driver c0) bid d ms;
       out = snd (snd (run c0 d ms))
   in out = live_events bid fixes
      \<and> location_sequences (map snd out) = map int [1..<Suc (length fixes)]
      \<and> (out = [] \<or> hd out = (Bus_topic bid, connected))
      \<and> set (location_sequences (snd (connect d bid usr))) \<subseteq> {- 1}"
proof -
  let ?c0 = "fst (connect d bid usr)"
  let ?fixes = "accepted_fixes (is_driver ?c0) bid d ms"
  let ?out = "snd (snd (run ?c0 d ms))"
  have fresh: "sequence_number ?c0 = int 0" "bus_id ?c0 = bid"
    using connect_fresh [of d bid usr] by simp_all
  have out: "?out = live_events bid ?fixes"
    using run_events [OF fresh(1), of d ms] fresh(2) by (simp add: live_events_def)
  have seqs: "location_sequences (map snd ?out) = map int [1..<Suc (length ?fixes)]"
    unfolding out live_events_def using live_sequences [of 0 bid ?fixes] by simp
  have first: "?out = [] \<or> hd ?out = (Bus_topic bid, connected)"
    unfolding out live_events_def by (cases ?fixes) auto
  show ?thesis
    unfolding Let_def using out seqs first replay_sequence [of d bid usr] by blast
qed

lemma haversine_poles_rev: "haversine (- 90) 1 90 1 = 6371 * pi"
  by (simp add: haversine_def haversine_with_def radians_def atan2_def)

lemma example_accepted_fixes: "accepted_fixes True 1 (example_db idle_bus)
        [(1, Data (Some ''location'') (Some (- 90)) (Some 1)),
         (2, Data (Some ''location'') (Some (- 90)) (Some 1)),
         (3, Data (Some ''location'') (Some 90) (Some 1))] = [(- 90, 1), (90, 1)]"
  by (simp add: save_bus_location_def example_db_def idle_bus_def Let_def
        save_nearest_stop_def min_index_def south_stop_def north_stop_def
        calculate_distance_poles calculate_distance_same haversine_poles haversine_poles_rev haversine_same poles_far pole_key_positive
        truthy_def py_int_def)

theorem session_sequence_numbers_witness:
  "snd (snd (run (fst (connect (example_db idle_bus) 1 (Some 7))) (example_db idle_bus)
        [(1, Data (Some ''location'') (Some (- 90)) (Some 1)),
         (2, Data (Some ''location'') (Some (- 90)) (Some 1)),
         (3, Data (Some ''location'') (Some 90) (Some 1))]))
     = [(Bus_topic 1, connected),
        (Bus_topic 1, Location_update (- 90) 1 False 1),
        (Bus_topic 1, Location_update 90 1 False 2)]
   \<and> connect (example_db tracked_bus) 1 (Some 8)
     = (passenger, [Location_update (- 90) 1 True (- 1), waiting])"
proof -
  let ?D = "example_db idle_bus"
  let ?ms = "[(1, Data (Some ''location'') (Some (- 90)) (Some 1)),
              (2, Data (Some ''location'') (Some (- 90)) (Some 1)),
              (3, Data (Some ''location'') (Some 90) (Some 1))]"
  have c0: "fst (connect ?D 1 (Some 7)) = driver_session"
    by (simp add: connect_def is_driver_for_bus_def example_db_def idle_bus_def driver_session_def)
  have drv: "is_driver driver_session = True"
    by (simp add: driver_session_def)
  have ev: "live_events 1 [(- 90, 1), (90, 1)] =
      [(Bus_topic 1, connected), (Bus_topic 1, Location_update (- 90) 1 False 1),
       (Bus_topic 1, Location_update 90 1 False 2)]"
    by (simp add: live_events_def)
  have "snd (snd (run driver_session ?D ?ms)) = live_events 1 (accepted_fixes True 1 ?D ?ms)"
    using session_sequence_numbers [of ?D 1 "Some 7" ?ms]
    unfolding Let_def c0 drv by blast
  then have first: "snd (snd (run driver_session ?D ?ms)) =
      [(Bus_topic 1, connected), (Bus_topic 1, Location_update (- 90) 1 False 1),
       (Bus_topic 1, Location_update 90 1 False 2)]"
    unfolding example_accepted_fixes ev .
  have second: "connect (example_db tracked_bus) 1 (Some 8)
     = (passenger, [Location_update (- 90) 1 True (- 1), waiting])"
    by (simp add: connect_def is_driver_for_bus_def get_last_bus_location_def
        example_db_def idle_bus_def tracked_bus_def passenger_def truthy_def)
  show ?thesis unfolding c0 using first second by blast
qed


section \<open>Properties of the route graph\<close>

lemma update_new_key:
  "k \<notin> fst ` set al \<Longrightarrow> AList.update k v al = al @ [(k, v)]"
  by (induction al) auto

lemma update_last_entry:
  "k \<notin> fst ` set al \<Longrightarrow> AList.update k v (al @ [(k, v')]) = al @ [(k, v)]"
  by (induction al) auto

lemma map_of_last_entry:
  "k \<notin> fst ` set al \<Longrightarrow> map_of (al @ [(k, v)]) k = Some v"
  by (induction al) auto

lemma graph_step_new:
  assumes "stop_id (stop rs) \<notin> fst ` set g" "rs = rss ! i"
  shows "graph_step rss (i, rs) g = g @ [graph_entry rss i]"
proof -
  let ?k = "stop_id (stop rs)"
  have g1: "AList.update ?k [] g = g @ [(?k, [])]"
    using assms(1) by (rule update_new_key)
  have cond: "(int i < int (length rss) - 1) = (Suc i < length rss)" by auto
  show ?thesis
    unfolding graph_step_def prod.case Let_def g1 cond append_edge_def
      map_of_last_entry [OF assms(1)] graph_entry_def
    using assms by (simp add: update_last_entry)
qed

lemma graph_prefix:
  assumes "distinct (map (\<lambda>rs. stop_id (stop rs)) rss)" "k \<le> length rss"
  shows "fold (graph_step rss) (enumerate 0 (take k rss)) [] = map (graph_entry rss) [0..<k]"
  using assms(2)
proof (induction k)
  case 0
  then show ?case by simp
next
  case (Suc k)
  then have k: "k < length rss" by simp
  have tk: "take (Suc k) rss = take k rss @ [rss ! k]"
    using k by (simp add: take_Suc_conv_app_nth)
  have en: "enumerate 0 (take (Suc k) rss) = enumerate 0 (take k rss) @ [(k, rss ! k)]"
    unfolding tk using k by (simp add: enumerate_append_eq)
  have keys: "fst ` set (map (graph_entry rss) [0..<k]) = (\<lambda>i. stop_id (stop (rss ! i))) ` {0..<k}"
    by (force simp: graph_entry_def image_iff)
  have fresh: "stop_id (stop (rss ! k)) \<notin> fst ` set (map (graph_entry rss) [0..<k])"
  proof
    assume "stop_id (stop (rss ! k)) \<in> fst ` set (map (graph_entry rss) [0..<k])"
    then obtain i where i: "i < k" "stop_id (stop (rss ! i)) = stop_id (stop (rss ! k))"
      unfolding keys by auto
    have "(map (\<lambda>rs. stop_id (stop rs)) rss ! i = map (\<lambda>rs. stop_id (stop rs)) rss ! k) = (i = k)"
      using assms(1) i(1) k by (intro nth_eq_iff_index_eq) simp_all
    with i k show False by simp
  qed
  have "fold (graph_step rss) (enumerate 0 (take (Suc k) rss)) []
      = graph_step rss (k, rss ! k) (map (graph_entry rss) [0..<k])"
    unfolding en using Suc.IH k by simp
  also have "\<dots> = map (graph_entry rss) [0..<k] @ [graph_entry rss k]"
    by (rule graph_step_new [OF fresh refl])
  finally show ?case by simp
qed

lemma get_stop_graph_closed_form:
  assumes "distinct (map (\<lambda>rs. stop_id (stop rs)) rss)"
  shows "get_stop_graph rss = map (graph_entry rss) [0..<length rss]"
  using graph_prefix [OF assms, of "length rss"] by (simp add: get_stop_graph_def)

lemma edge_distance_stated: "edge_distance rs next_rs = stated_weight rs next_rs"
  by (simp add: edge_distance_def stated_weight_def Let_def split: option.splits)

lemma edges_of_entries:
  "n \<le> length rss \<Longrightarrow>
   edges_of (map (graph_entry rss) [0..<n]) =
     map (\<lambda>i. (stop_id (stop (rss ! i)), stop_id (stop (rss ! Suc i)),
                stated_weight (rss ! i) (rss ! Suc i)))
       (filter (\<lambda>i. Suc i < length rss) [0..<n])"
  by (induction n) (auto simp: edges_of_def graph_entry_def edge_distance_stated)

lemma filter_all_but_last:
  "filter (\<lambda>i. Suc i < n) [0..<n] = [0..<n - 1]"
proof (cases n)
  case 0
  then show ?thesis by simp
next
  case (Suc m)
  have "filter (\<lambda>i. Suc i < Suc m) [0..<m] = [0..<m]"
    by (rule filter_True) simp
  then show ?thesis using Suc by simp
qed

text \<open>
  C5.  For a route whose stops are pairwise different (the table allows a stop once
  per route), the graph has one entry per stop, in route order, and its edges are
  exactly the \<open>N - 1\<close> edges from each stop to the next one (none for an empty route),
  each weighted by the stored distance to the next stop when that is present and not
  zero, and by the great-circle distance between the two stops otherwise.
\<close>

theorem stop_graph_is_forward_path:
  assumes "distinct (map (\<lambda>rs. stop_id (stop rs)) stops_list)"
  shows "map fst (get_stop_graph stops_list) = map (\<lambda>rs. stop_id (stop rs)) stops_list
       \<and> edges_of (get_stop_graph stops_list) =
           map (\<lambda>i. (stop_id (stop (stops_list ! i)), stop_id (stop (stops_list ! Suc i)),
                      stated_weight (stops_list ! i) (stops_list ! Suc i)))
             [0..<length stops_list - 1]
       \<and> length (edges_of (get_stop_graph stops_list)) = length stops_list - 1"
proof -
  have cf: "get_stop_graph stops_list = map (graph_entry stops_list) [0..<length stops_list]"
    using assms by (rule get_stop_graph_closed_form)
  have keys: "map fst (get_stop_graph stops_list) = map (\<lambda>rs. stop_id (stop rs)) stops_list"
    unfolding cf by (rule nth_equalityI) (simp_all add: graph_entry_def)
  have edges: "edges_of (get_stop_graph stops_list) =
           map (\<lambda>i. (stop_id (stop (stops_list ! i)), stop_id (stop (stops_list ! Suc i)),
                      stated_weight (stops_list ! i) (stops_list ! Suc i)))
             [0..<length stops_list - 1]"
    unfolding cf using edges_of_entries [of "length stops_list" stops_list]
    by (simp add: filter_all_but_last)
  show ?thesis using keys edges by simp
qed

lemma calculate_distance_poles_rev: "calculate_distance 90 1 (- 90) 1 = 6371000 * pi"
  by (simp add: calculate_distance_def haversine_with_def radians_def atan2_def)

theorem stop_graph_is_forward_path_witness:
  "distinct (map (\<lambda>rs. stop_id (stop rs)) example_route)
   \<and> map fst (get_stop_graph example_route) = [3, 2, 1]
   \<and> edges_of (get_stop_graph example_route) = [(3, 2, 500), (2, 1, 6371000 * pi)]"
proof -
  have d: "distinct (map (\<lambda>rs. stop_id (stop rs)) example_route)"
    by (simp add: example_route_def mid_stop_def north_stop_def south_stop_def)
  have u: "[0..<length example_route - 1] = [0, 1]"
    by (simp add: example_route_def upt_conv_Cons)
  show ?thesis
    using d stop_graph_is_forward_path [OF d] unfolding u
    by (simp add: example_route_def mid_stop_def north_stop_def south_stop_def stated_weight_def
          calculate_distance_poles_rev)
qed


section \<open>Properties of the views\<close>

text \<open>
  C3, as claimed, fails: after a successful switch the bus still has its stored
  latitude and longitude.
\<close>

theorem switch_route_keeps_position:
  "\<exists>d'. switch_route (example_db tracked_bus) (Some 1) = (d', 200)
     \<and> map_of (buses d') 1 = Some (tracked_bus\<lparr>route := Some 2, nearest_stop_index := None,
                                  eta_seconds := None, eta_smoothed_seconds := None\<rparr>)
     \<and> current_lat (the (map_of (buses d') 1)) = Some (- 90)"
  by (simp add: switch_route_def example_db_def tracked_bus_def idle_bus_def)

text \<open>
  C3, amended.  A successful \<open>switch_route\<close> puts the bus on the reverse route, sets its
  nearest-stop index, raw ETA and smoothed ETA to null and its passed-stop counter to
  0, and leaves its stored latitude and longitude as they were.
\<close>

theorem switch_route_resets_eta_state:
  assumes "find (\<lambda>(i, b). driver b = Some k) (buses d) = Some (bid, b)"
    and "route b = Some r" and "reverse_route d r = Some r'"
  shows "\<exists>d' b'. switch_route d (Some k) = (d', 200) \<and> map_of (buses d') bid = Some b'
           \<and> route b' = Some r'
           \<and> nearest_stop_index b' = None \<and> eta_seconds b' = None
           \<and> eta_smoothed_seconds b' = None \<and> eta_passed_counter b' = 0
           \<and> current_lat b' = current_lat b \<and> current_lng b' = current_lng b"
  using assms by (simp add: switch_route_def update_conv')

theorem switch_route_resets_eta_state_witness:
  "\<exists>d' b'. switch_route (example_db tracked_bus) (Some 1) = (d', 200)
      \<and> map_of (buses d') 1 = Some b'
      \<and> route b' = Some 2
      \<and> nearest_stop_index b' = None \<and> eta_seconds b' = None
      \<and> eta_smoothed_seconds b' = None \<and> eta_passed_counter b' = 0
      \<and> current_lat b' = Some (- 90) \<and> current_lng b' = Some 1"
  using switch_route_resets_eta_state [of 1 "example_db tracked_bus" 1 tracked_bus 1 2]
  by (simp add: example_db_def tracked_bus_def idle_bus_def)


text \<open>
  C6, as claimed, fails: 0.75 km at 25 km/h is 1.8 minutes, which rounds to 2, and the
  view answers 1.
\<close>

theorem pickup_eta_not_rounded:
  "pickup_eta 0 0 5 5 (3 / 4) (3 / 4) None = Eta (Some 1) ''arriving_soon'' 0
   \<and> stated_eta (3 / 4) 0 0 = 2"
  by (simp add: pickup_eta_def Let_def py_int_def stated_eta_def total_minutes_def round_def)


lemma pickup_eta_at_stop:
  assumes "nearest_stop_idx \<le> pickup_idx"
  shows "pickup_eta nearest_stop_idx pickup_idx sid sid dist_to_nearest km dist_along_route_meters
     = eta_outcome (max 1 (py_int (km / 25 * 60 + real_of_int (0 * 60) / 60))) 0"
proof -
  have c1: "(nearest_stop_idx > pickup_idx) = False" using assms by simp
  have c2: "(sid = sid) = True" by simp
  show ?thesis
    unfolding pickup_eta_def eta_outcome_def
    by (simp only: c1 c2 Let_def if_False if_True option.case prod.case)
qed

lemma pickup_eta_along_route:
  assumes "nearest_stop_idx < pickup_idx" "nearest_stop_id \<noteq> pickup_stop_id" "0 \<le> m"
  shows "pickup_eta nearest_stop_idx pickup_idx nearest_stop_id pickup_stop_id dist_to_nearest
       dist_bus_to_pickup_km (Some m)
     = eta_outcome (max 1 (py_int ((dist_to_nearest + m / 1000) / 25 * 60
          + real_of_int ((int pickup_idx - int nearest_stop_idx) * 60) / 60)))
         (int pickup_idx - int nearest_stop_idx)"
proof -
  have c1: "(nearest_stop_idx > pickup_idx) = False" using assms(1) by simp
  have c2: "(nearest_stop_id = pickup_stop_id) = False" using assms(2) by simp
  have c3: "(m \<ge> 0) = True" using assms(3) by simp
  have c4: "(int pickup_idx - int nearest_stop_idx < 0) = False" using assms(1) by simp
  show ?thesis
    unfolding pickup_eta_def eta_outcome_def
    by (simp only: c1 c2 c3 c4 Let_def if_False if_True option.case prod.case)
qed

text \<open>
  C6, amended.  For a bus that has not passed the pickup stop and from whose nearest
  stop the pickup is reachable, the view computes the total minutes as claimed (travel
  at 25 km/h plus one minute per stop between the nearest stop and the pickup), takes
  \<open>max(1, int(total))\<close> with the total truncated and not rounded, and reports that
  number only when it is at most 30; above 30 the ETA is null with status \<open>no_route\<close>.
\<close>

theorem pickup_eta_truncates:
  assumes "nearest_stop_idx \<le> pickup_idx"
    and "(nearest_stop_id = pickup_stop_id) = (nearest_stop_idx = pickup_idx)"
    and "nearest_stop_idx = pickup_idx
         \<or> (dist_along_route_meters \<noteq> None \<and> 0 \<le> the dist_along_route_meters)"
  shows "pickup_eta nearest_stop_idx pickup_idx nearest_stop_id pickup_stop_id
             dist_to_nearest dist_bus_to_pickup_km dist_along_route_meters
         = eta_outcome
             (max 1 (py_int (total_minutes
                (if nearest_stop_idx = pickup_idx then dist_bus_to_pickup_km
                 else dist_to_nearest + the dist_along_route_meters / 1000)
                nearest_stop_idx pickup_idx)))
             (max 0 (int pickup_idx - int nearest_stop_idx))"
proof (cases "nearest_stop_idx = pickup_idx")
  case True
  with assms(2) have ids: "nearest_stop_id = pickup_stop_id" by simp
  have tm: "dist_bus_to_pickup_km / 25 * 60 + real_of_int (0 * 60) / 60
      = total_minutes dist_bus_to_pickup_km nearest_stop_idx pickup_idx"
    using True by (simp add: total_minutes_def)
  show ?thesis
    unfolding ids pickup_eta_at_stop [OF assms(1)] tm using True by simp
next
  case False
  with assms(2) have ids: "nearest_stop_id \<noteq> pickup_stop_id" by simp
  from False assms(3) obtain m where m: "dist_along_route_meters = Some m" "0 \<le> m" by auto
  from False assms(1) have lt: "nearest_stop_idx < pickup_idx" by simp
  then have sb: "max 0 (int pickup_idx - int nearest_stop_idx) = int pickup_idx - int nearest_stop_idx"
    by simp
  have tm: "(dist_to_nearest + m / 1000) / 25 * 60
        + real_of_int ((int pickup_idx - int nearest_stop_idx) * 60) / 60
      = total_minutes (dist_to_nearest + m / 1000) nearest_stop_idx pickup_idx"
    unfolding total_minutes_def sb by simp
  show ?thesis
    unfolding m(1) pickup_eta_along_route [OF lt ids m(2)] tm sb using False by simp
qed

theorem pickup_eta_truncates_witness:
  "pickup_eta 1 3 10 30 (1 / 2) 7 (Some 1000) = Eta (Some 5) ''catchable'' 2
   \<and> pickup_eta 0 0 5 5 (3 / 4) (3 / 4) None = Eta (Some 1) ''arriving_soon'' 0
   \<and> pickup_eta 0 0 5 5 20 20 None = Eta None ''no_route'' 0"
  using pickup_eta_truncates [of 1 3 10 30 "Some 1000" 7 "1 / 2"]
    pickup_eta_truncates [of 0 0 5 5 None "3 / 4" "3 / 4"]
    pickup_eta_truncates [of 0 0 5 5 None 20 20]
  by (simp add: pickup_eta_def Let_def py_int_def total_minutes_def eta_outcome_def)


section \<open>Properties of the chat socket\<close>

text \<open>
  C8, as claimed, fails in step (c): a driver who has last written to themself gets, as
  recipient, the last other user who wrote to them, not the sender of the most recent
  message they received.
\<close>

theorem chat_last_contact_skips_own_messages:
  "resolve_recipient chat_db 7 None None = Some 8
   \<and> stated_recipient chat_db 7 None None = Some 7"
  by (simp add: resolve_recipient_def stated_recipient_def chat_db_def example_db_def
        is_sender_driver_def get_last_user_to_driver_def most_recent_sender_def truthy_id_def)


lemma truthy_last:
  assumes "list_all (\<lambda>m. sender m \<noteq> 0) ms"
  shows "truthy_id (case filter P ms of [] \<Rightarrow> None | m # ms' \<Rightarrow> Some (sender (last (m # ms'))))
         = (filter P ms \<noteq> [])"
proof (cases "filter P ms")
  case Nil
  then show ?thesis by (simp add: truthy_id_def)
next
  case (Cons m ms')
  then have "last (m # ms') \<in> set (filter P ms)"
    by (metis last_in_set list.distinct(1))
  then have "sender (last (m # ms')) \<noteq> 0"
    using assms by (auto simp: list_all_iff)
  with Cons show ?thesis by (simp add: truthy_id_def)
qed

lemma driver_user_positive:
  assumes "positive_ids d" "map_of (drivers d) k = Some drv"
  shows "user drv \<noteq> 0"
proof -
  from assms(2) have "(k, drv) \<in> set (drivers d)" by (rule map_of_SomeD)
  with assms(1) show ?thesis by (auto simp: positive_ids_def list_all_iff)
qed

lemma resolve_amended:
  assumes "positive_ids d"
  shows "effective_id (resolve_recipient d sid recipient_id bus_ref)
         = amended_recipient d sid recipient_id bus_ref"
proof -
  have msgs: "list_all (\<lambda>m. sender m \<noteq> 0) (messages d)"
    using assms by (simp add: positive_ids_def)
  have last_truthy: "truthy_id (get_last_user_to_driver d sid)
      = (get_last_user_to_driver d sid \<noteq> None)"
    unfolding get_last_user_to_driver_def truthy_last [OF msgs]
    by (simp split: list.splits)
  have same: "most_recent_other_sender d sid = get_last_user_to_driver d sid"
    by (simp add: most_recent_other_sender_def get_last_user_to_driver_def)
  show ?thesis
    using last_truthy
    by (auto simp: resolve_recipient_def amended_recipient_def effective_id_def Let_def same
          assigned_driver_user_def truthy_id_def split: option.splits
          dest: driver_user_positive [OF assms])
qed

text \<open>
  C8, amended.  For a \<open>chat_message\<close> event of an authenticated sender the recipient
  that counts is: (a) the recipient id of the event when given; (b) otherwise, when a
  bus id is given and the sender is not a driver, the user id of the driver assigned to
  that bus; (c) otherwise, when the sender is a driver, the sender of the most recent
  message that driver received from another user.  When this gives no recipient or the
  content is empty, the event is dropped: the database is unchanged and nothing is
  published.  Otherwise the event is published, first to the recipient's user topic.
\<close>

theorem chat_recipient_resolution:
  assumes "positive_ids d"
  shows "effective_id (resolve_recipient d sid recipient_id bus_ref)
           = amended_recipient d sid recipient_id bus_ref
       \<and> (if amended_recipient d sid recipient_id bus_ref = None \<or> \<not> truthy_str content_v
          then chat_receive d (Some sid)
                 (Chat_data (Some ''chat_message'') content_v recipient_id bus_ref) = (d, [])
          else (\<exists>d' out. chat_receive d (Some sid)
                   (Chat_data (Some ''chat_message'') content_v recipient_id bus_ref)
                 = (d', (User_topic (the (amended_recipient d sid recipient_id bus_ref)),
                         Chat_message_forward sid
                           (the (amended_recipient d sid recipient_id bus_ref))
                           (the content_v) bus_ref) # out)))"
proof -
  let ?r = "resolve_recipient d sid recipient_id bus_ref"
  let ?a = "amended_recipient d sid recipient_id bus_ref"
  have eq: "effective_id ?r = ?a"
    using assms by (rule resolve_amended)
  have none: "(?a = None) = (\<not> truthy_id ?r)"
    unfolding eq [symmetric] by (simp add: effective_id_def truthy_id_def split: option.splits)
  have the_r: "truthy_id ?r \<Longrightarrow> the ?a = the ?r"
    unfolding eq [symmetric] by (simp add: effective_id_def)
  show ?thesis
  proof (cases "?a = None \<or> \<not> truthy_str content_v")
    case True
    then have "\<not> truthy_id ?r \<or> \<not> truthy_str content_v" using none by simp
    then have "chat_receive d (Some sid)
        (Chat_data (Some ''chat_message'') content_v recipient_id bus_ref) = (d, [])"
      by (auto simp: chat_receive_def Let_def)
    with True eq show ?thesis by simp
  next
    case False
    then have t: "truthy_id ?r" "truthy_str content_v" using none by auto
    then have "\<exists>d' out. chat_receive d (Some sid)
                   (Chat_data (Some ''chat_message'') content_v recipient_id bus_ref)
                 = (d', (User_topic (the ?r), Chat_message_forward sid (the ?r)
                           (the content_v) bus_ref) # out)"
      by (simp add: chat_receive_def Let_def)
    with False eq the_r [OF t(1)] show ?thesis by auto
  qed
qed

lemma chat_db_positive: "positive_ids chat_db"
  by (simp add: positive_ids_def chat_db_def example_db_def)

theorem chat_recipient_resolution_witness:
  "resolve_recipient chat_db 8 (Some 7) None = Some 7
   \<and> resolve_recipient chat_db 8 None (Some 1) = Some 7
   \<and> resolve_recipient chat_db 7 None (Some 1) = Some 8
   \<and> chat_receive chat_db (Some 8) (Chat_data (Some ''chat_message'') (Some ''hi'') None None)
       = (chat_db, [])
   \<and> chat_receive chat_db (Some 8) (Chat_data (Some ''chat_message'') (Some []) (Some 7) None)
       = (chat_db, [])"
  using chat_recipient_resolution [OF chat_db_positive, of 8 "Some 7" None "Some []"]
    chat_recipient_resolution [OF chat_db_positive, of 8 None "Some 1" "Some ''hi''"]
    chat_recipient_resolution [OF chat_db_positive, of 7 None "Some 1" "Some ''hi''"]
    chat_recipient_resolution [OF chat_db_positive, of 8 None None "Some ''hi''"]
  by (simp add: amended_recipient_def effective_id_def truthy_id_def truthy_str_def
        is_sender_driver_def assigned_driver_user_def most_recent_other_sender_def
        chat_db_def example_db_def idle_bus_def resolve_recipient_def get_last_user_to_driver_def
        chat_receive_def)

end
